theory Spec2Isabelle
  imports Main "HOL-Library.Word" "HOL-Library.Sublist"
begin

section \<open>The Liftbridge command-line client (package cli, file cli.go)\<close>

text \<open>
  A shallow embedding of the command handlers of \<^verbatim>\<open>cli.go\<close>. The broker and its Go
  client library are external: the library's entry point and the methods of a connected
  client are parameters of every handler (records of functions over a broker state of
  any type). Contexts, deadlines and cancellation are not represented.
\<close>

subsection \<open>Errors\<close>

text \<open>
  Go error values. \<open>ErrStreamExists\<close> is the sentinel \<^verbatim>\<open>lift.ErrStreamExists\<close>, compared
  by identity in the source; \<open>LibError\<close> is any other error value handed out by the client
  library, named by its message. \<open>Errorf\<close> is \<^verbatim>\<open>fmt.Errorf\<close> without the verb
  \<^verbatim>\<open>%w\<close>, holding the formatted text; \<open>Errorfw\<close> is \<^verbatim>\<open>fmt.Errorf\<close> with a format
  that ends in \<^verbatim>\<open>%w\<close>: the formatted text before the verb, and the wrapped error.
\<close>

datatype error =
    ErrStreamExists
  | LibError string
  | Errorf string
  | Errorfw string error

fun Error :: "error \<Rightarrow> string" where
  "Error ErrStreamExists = ''stream already exists''"
| "Error (LibError msg) = msg"
| "Error (Errorf msg) = msg"
| "Error (Errorfw msg err) = msg @ Error err"

subsection \<open>The client library\<close>

record Message =
  Value :: string
  Offset :: "64 word"

text \<open>
  One invocation of the callback given to \<^verbatim>\<open>Subscribe\<close>: the message and the error
  (\<open>None\<close> is \<^verbatim>\<open>nil\<close>) it is called with.
\<close>

datatype delivery = Delivery (delivered: Message) (failure: "error option")

datatype MessageOption = AckPolicyLeader | AckPolicyAll | AckPolicyNone

datatype SubscriptionOption = StartAtEarliestReceived

text \<open>
  The methods of \<^verbatim>\<open>lift.Client\<close> that the modelled handlers call, each a function
  of the broker state. \<open>Subscribe\<close> either fails or starts a subscription; the list is the
  sequence of callback invocations the subscription has made so far.
\<close>

record 'b Client =
  CreateStream :: "string \<Rightarrow> string \<Rightarrow> 'b \<Rightarrow> error option \<times> 'b"
  Publish :: "string \<Rightarrow> string \<Rightarrow> MessageOption \<Rightarrow> 'b \<Rightarrow> error option \<times> 'b"
  FetchCursor :: "string \<Rightarrow> string \<Rightarrow> 32 word \<Rightarrow> 'b \<Rightarrow> (error + 64 word) \<times> 'b"
  Subscribe :: "string \<Rightarrow> SubscriptionOption \<Rightarrow> 'b \<Rightarrow> error + delivery list"

text \<open>\<^verbatim>\<open>lift.Connect\<close>, from a list of addresses to a client or an error.\<close>

type_synonym 'b lift = "string list \<Rightarrow> error + 'b Client"

subsection \<open>The world a handler runs in\<close>

text \<open>
  The requests a handler sends to the broker are recorded in order, so that a claim
  can say which requests were made.
\<close>

datatype rpc =
    CreateStreamRPC string string
  | PublishRPC string string MessageOption
  | FetchCursorRPC string string "32 word"
  | SubscribeRPC string SubscriptionOption

record 'b world =
  broker :: 'b
  rpcs :: "rpc list"
  stdout :: "string list"

definition call_CreateStream ::
  "'b Client \<Rightarrow> string \<Rightarrow> string \<Rightarrow> 'b world \<Rightarrow> error option \<times> 'b world" where
  "call_CreateStream client subjectName streamName w =
     (case CreateStream client subjectName streamName (broker w) of
        (err, b) \<Rightarrow>
          (err, w\<lparr>broker := b, rpcs := rpcs w @ [CreateStreamRPC subjectName streamName]\<rparr>))"

definition call_Publish ::
  "'b Client \<Rightarrow> string \<Rightarrow> string \<Rightarrow> MessageOption \<Rightarrow> 'b world \<Rightarrow> error option \<times> 'b world" where
  "call_Publish client streamName data opt w =
     (case Publish client streamName data opt (broker w) of
        (err, b) \<Rightarrow>
          (err, w\<lparr>broker := b, rpcs := rpcs w @ [PublishRPC streamName data opt]\<rparr>))"

definition call_FetchCursor ::
  "'b Client \<Rightarrow> string \<Rightarrow> string \<Rightarrow> 32 word \<Rightarrow> 'b world \<Rightarrow> (error + 64 word) \<times> 'b world" where
  "call_FetchCursor client cursorID streamName part w =
     (case FetchCursor client cursorID streamName part (broker w) of
        (res, b) \<Rightarrow>
          (res, w\<lparr>broker := b, rpcs := rpcs w @ [FetchCursorRPC cursorID streamName part]\<rparr>))"

definition call_Subscribe ::
  "'b Client \<Rightarrow> string \<Rightarrow> SubscriptionOption \<Rightarrow> 'b world \<Rightarrow> (error + delivery list) \<times> 'b world" where
  "call_Subscribe client streamName opt w =
     (Subscribe client streamName opt (broker w),
      w\<lparr>rpcs := rpcs w @ [SubscribeRPC streamName opt]\<rparr>)"

subsection \<open>Flags\<close>

text \<open>
  The parsed flag values of one invocation (\<^verbatim>\<open>*cli.Context\<close>), read in the source with
  \<^verbatim>\<open>c.String\<close>, \<^verbatim>\<open>c.Bool\<close> and \<^verbatim>\<open>c.Int\<close>; each field has the name of the flag
  variable it is read through.
\<close>

record Context =
  addressFlag :: string
  streamFlag :: string
  subjectFlag :: string
  messageFlag :: string
  createStreamFlag :: bool
  ackPolicyFlag :: string
  cursorIDFlag :: string
  partitionFlag :: "64 word"

definition activityStreamName :: string where
  "activityStreamName = ''__activity''"

subsection \<open>Connecting and creating streams\<close>

definition connectToEndpoint :: "'b lift \<Rightarrow> string \<Rightarrow> error + 'b Client" where
  "connectToEndpoint Connect addr =
     (case Connect [addr] of
        Inl err \<Rightarrow> Inl (Errorfw (''connection failed with address '' @ addr @ '': '') err)
      | Inr client \<Rightarrow> Inr client)"

definition ensureStreamCreated ::
  "'b Client \<Rightarrow> string \<Rightarrow> string \<Rightarrow> 'b world \<Rightarrow> error option \<times> 'b world" where
  "ensureStreamCreated client streamName subjectName w =
     (let subjectName = (if length subjectName = 0 then streamName else subjectName)
      in case call_CreateStream client subjectName streamName w of
           (None, w') \<Rightarrow> (None, w')
         | (Some err, w') \<Rightarrow>
             if err \<noteq> ErrStreamExists
             then (Some (Errorfw (''stream creation failed for stream '' @ streamName @ '': '') err), w')
             else (None, w'))"

definition create :: "'b lift \<Rightarrow> Context \<Rightarrow> 'b world \<Rightarrow> error option \<times> 'b world" where
  "create Connect c w =
     (case connectToEndpoint Connect (addressFlag c) of
        Inl err \<Rightarrow> (Some (Errorfw ''creation failed: '' err), w)
      | Inr client \<Rightarrow>
          (let streamName = streamFlag c;
               subjectName = subjectFlag c;
               subjectName = (if length subjectName = 0 then streamName else subjectName)
           in case call_CreateStream client subjectName streamName w of
                (None, w') \<Rightarrow> (None, w')
              | (Some err, w') \<Rightarrow>
                  (Some (Errorfw (''stream creation failed for stream '' @ streamName @ '': '') err), w')))"

subsection \<open>Formatting\<close>

text \<open>
  What the verb \<^verbatim>\<open>%v\<close> prints for the values the handlers format: a string as it is,
  an integer in decimal, a boolean as \<^verbatim>\<open>true\<close> or \<^verbatim>\<open>false\<close>, a slice of integers as its
  elements separated by spaces between square brackets.
\<close>

definition digit :: "nat \<Rightarrow> char" where
  "digit d = ''0123456789'' ! (d mod 10)"

function FormatUint :: "nat \<Rightarrow> string" where
  "FormatUint n = (if n < 10 then [digit n] else FormatUint (n div 10) @ [digit (n mod 10)])"
  by pat_completeness auto
termination
  by (relation "measure (\<lambda>n. n)") auto

declare FormatUint.simps [simp del]

definition FormatInt :: "int \<Rightarrow> string" where
  "FormatInt i = (if i < 0 then CHR ''-'' # FormatUint (nat (- i)) else FormatUint (nat i))"

definition FormatBool :: "bool \<Rightarrow> string" where
  "FormatBool b = (if b then ''true'' else ''false'')"

fun joinWords :: "string list \<Rightarrow> string" where
  "joinWords [] = []"
| "joinWords [x] = x"
| "joinWords (x # y # ys) = x @ '' '' @ joinWords (y # ys)"

definition FormatInt32s :: "32 word list \<Rightarrow> string" where
  "FormatInt32s xs = ''['' @ joinWords (map (\<lambda>x. FormatInt (sint x)) xs) @ '']''"

definition Printf :: "string \<Rightarrow> 'b world \<Rightarrow> 'b world" where
  "Printf text w = w\<lparr>stdout := stdout w @ [text]\<rparr>"

definition newline :: string where
  "newline = [CHR 0x0A]"

subsection \<open>Subscribing\<close>

text \<open>
  Where a run of \<^verbatim>\<open>subscribeToStream\<close> stands after the callback invocations made so
  far: it has returned an error value (\<open>None\<close> is \<^verbatim>\<open>nil\<close>), it is blocked receiving from
  \<^verbatim>\<open>errC\<close>, or the handler has panicked.
\<close>

datatype panic = NilPointerDereference

datatype session = Returned "error option" | Blocked | Panicked panic

text \<open>
  The callback given to \<^verbatim>\<open>client.Subscribe\<close>, applied to the invocations in order. With
  an error it sends the error on \<^verbatim>\<open>errC\<close>, which the blocked \<^verbatim>\<open>return <-errC\<close> returns;
  otherwise it calls the handler.
\<close>

fun callback :: "(Message \<Rightarrow> 'w \<Rightarrow> panic + 'w) \<Rightarrow> delivery list \<Rightarrow> 'w \<Rightarrow> session \<times> 'w" where
  "callback handler [] w = (Blocked, w)"
| "callback handler (Delivery m (Some err) # ds) w = (Returned (Some err), w)"
| "callback handler (Delivery m None # ds) w =
     (case handler m w of
        Inl p \<Rightarrow> (Panicked p, w)
      | Inr w' \<Rightarrow> callback handler ds w')"

definition subscribeToStream ::
  "'b lift \<Rightarrow> string \<Rightarrow> string \<Rightarrow> (Message \<Rightarrow> 'b world \<Rightarrow> panic + 'b world) \<Rightarrow> string \<Rightarrow> bool \<Rightarrow>
   'b world \<Rightarrow> session \<times> 'b world" where
  "subscribeToStream Connect streamName subjectName handler endPointAddress createStream w =
     (case connectToEndpoint Connect endPointAddress of
        Inl err \<Rightarrow> (Returned (Some (Errorfw ''stream subscription failed: '' err)), w)
      | Inr client \<Rightarrow>
          (case (if createStream then ensureStreamCreated client streamName subjectName w
                 else (None, w)) of
             (Some err, w1) \<Rightarrow> (Returned (Some err), w1)
           | (None, w1) \<Rightarrow>
               (case call_Subscribe client streamName StartAtEarliestReceived w1 of
                  (Inl err, w2) \<Rightarrow>
                    (Returned (Some (Errorfw (''stream subscription failed for stream '' @ streamName @ '': '') err)), w2)
                | (Inr ds, w2) \<Rightarrow> callback handler ds w2)))"

definition subscribe_handler :: "Message \<Rightarrow> 'b world \<Rightarrow> panic + 'b world" where
  "subscribe_handler message w =
     Inr (Printf (''Received message with data: '' @ Value message @ '', offset: ''
                  @ FormatInt (sint (Offset message)) @ newline) w)"

definition subscribe :: "'b lift \<Rightarrow> Context \<Rightarrow> 'b world \<Rightarrow> session \<times> 'b world" where
  "subscribe Connect c w =
     (let streamName = streamFlag c;
          subjectName = subjectFlag c
      in subscribeToStream Connect streamName subjectName subscribe_handler
           (addressFlag c) (createStreamFlag c) w)"

subsection \<open>The activity stream\<close>

text \<open>
  The decoded event \<^verbatim>\<open>liftApi.ActivityStreamEvent\<close>. \<open>OTHER_OP\<close> is any discriminant that
  the switch of the handler does not name, with the text its \<^verbatim>\<open>String\<close> method prints.
  The four operation fields are pointers in the generated Go type, \<^verbatim>\<open>nil\<close> (\<open>None\<close>) when
  the payload does not hold the operation; reading a field through \<^verbatim>\<open>nil\<close> panics.
\<close>

datatype ActivityStreamOp =
  CREATE_STREAM | DELETE_STREAM | PAUSE_STREAM | RESUME_STREAM | OTHER_OP string

fun String :: "ActivityStreamOp \<Rightarrow> string" where
  "String CREATE_STREAM = ''CREATE_STREAM''"
| "String DELETE_STREAM = ''DELETE_STREAM''"
| "String PAUSE_STREAM = ''PAUSE_STREAM''"
| "String RESUME_STREAM = ''RESUME_STREAM''"
| "String (OTHER_OP name) = name"

record CreateStreamOp =
  Stream :: string
  Partitions :: "32 word list"

record DeleteStreamOp =
  Stream :: string

record PauseStreamOp =
  Stream :: string
  Partitions :: "32 word list"
  ResumeAll :: bool

record ResumeStreamOp =
  Stream :: string
  Partitions :: "32 word list"

record ActivityStreamEvent =
  Op :: ActivityStreamOp
  CreateStreamOp :: "CreateStreamOp option"
  DeleteStreamOp :: "DeleteStreamOp option"
  PauseStreamOp :: "PauseStreamOp option"
  ResumeStreamOp :: "ResumeStreamOp option"

text \<open>The switch of the activity handler: the value it assigns to \<^verbatim>\<open>activityStr\<close>.\<close>

definition activityStr :: "ActivityStreamEvent \<Rightarrow> panic + string" where
  "activityStr se =
     (case Op se of
        CREATE_STREAM \<Rightarrow>
          (case CreateStreamOp se of
             None \<Rightarrow> Inl NilPointerDereference
           | Some op \<Rightarrow>
               Inr (''stream: '' @ CreateStreamOp.Stream op @ '', partitions: ''
                    @ FormatInt32s (CreateStreamOp.Partitions op)))
      | DELETE_STREAM \<Rightarrow>
          (case DeleteStreamOp se of
             None \<Rightarrow> Inl NilPointerDereference
           | Some op \<Rightarrow> Inr (''stream: '' @ DeleteStreamOp.Stream op))
      | PAUSE_STREAM \<Rightarrow>
          (case PauseStreamOp se of
             None \<Rightarrow> Inl NilPointerDereference
           | Some op \<Rightarrow>
               Inr (''stream: '' @ PauseStreamOp.Stream op @ '', partitions: ''
                    @ FormatInt32s (PauseStreamOp.Partitions op) @ '', resumeAll: ''
                    @ FormatBool (PauseStreamOp.ResumeAll op)))
      | RESUME_STREAM \<Rightarrow>
          (case ResumeStreamOp se of
             None \<Rightarrow> Inl NilPointerDereference
           | Some op \<Rightarrow>
               Inr (''stream: '' @ ResumeStreamOp.Stream op @ '', partitions: ''
                    @ FormatInt32s (ResumeStreamOp.Partitions op)))
      | OTHER_OP name \<Rightarrow> Inr ''unknown activity'')"

text \<open>
  The handler that \<^verbatim>\<open>subscribeActivityStream\<close> passes to \<^verbatim>\<open>subscribeToStream\<close>.
  \<open>Unmarshal\<close> is the decoder of the generated type, a parameter.
\<close>

definition subscribeActivityStream_handler ::
  "(string \<Rightarrow> error + ActivityStreamEvent) \<Rightarrow> Message \<Rightarrow> 'b world \<Rightarrow> panic + 'b world" where
  "subscribeActivityStream_handler Unmarshal message w =
     (case Unmarshal (Value message) of
        Inl err \<Rightarrow>
          Inr (Printf (''Received an invalid activity message from the activity stream: ''
                       @ Error err @ newline) w)
      | Inr se \<Rightarrow>
          (case activityStr se of
             Inl p \<Rightarrow> Inl p
           | Inr str \<Rightarrow>
               Inr (Printf (''Received activity stream message: op: '' @ String (Op se) @ '', ''
                            @ str @ '', offset: '' @ FormatInt (sint (Offset message)) @ newline) w)))"

definition subscribeActivityStream ::
  "'b lift \<Rightarrow> (string \<Rightarrow> error + ActivityStreamEvent) \<Rightarrow> Context \<Rightarrow> 'b world \<Rightarrow> session \<times> 'b world" where
  "subscribeActivityStream Connect Unmarshal c w =
     subscribeToStream Connect activityStreamName [] (subscribeActivityStream_handler Unmarshal)
       (addressFlag c) False w"

subsection \<open>Publishing\<close>

definition ackPolicyStringToAckPolicy :: "string \<Rightarrow> error + MessageOption" where
  "ackPolicyStringToAckPolicy ackPolicy =
     (if ackPolicy = ''leader'' then Inr AckPolicyLeader
      else if ackPolicy = ''all'' then Inr AckPolicyAll
      else if ackPolicy = ''none'' then Inr AckPolicyNone
      else Inl (Errorf (''invalid ack policy: '' @ ackPolicy)))"

definition publish :: "'b lift \<Rightarrow> Context \<Rightarrow> 'b world \<Rightarrow> error option \<times> 'b world" where
  "publish Connect c w =
     (case connectToEndpoint Connect (addressFlag c) of
        Inl err \<Rightarrow> (Some (Errorfw ''publication failed: '' err), w)
      | Inr client \<Rightarrow>
          (let streamName = streamFlag c;
               subjectName = subjectFlag c
           in case (if createStreamFlag c then ensureStreamCreated client streamName subjectName w
                    else (None, w)) of
                (Some err, w1) \<Rightarrow> (Some err, w1)
              | (None, w1) \<Rightarrow>
                  (let data = messageFlag c
                   in case ackPolicyStringToAckPolicy (ackPolicyFlag c) of
                        Inl err \<Rightarrow> (Some (Errorfw ''publication failed: '' err), w1)
                      | Inr ackPolicyOption \<Rightarrow>
                          (case call_Publish client streamName data ackPolicyOption w1 of
                             (None, w2) \<Rightarrow> (None, w2)
                           | (Some err, w2) \<Rightarrow>
                               if err \<noteq> ErrStreamExists
                               then (Some (Errorfw ''publication failed: '' err), w2)
                               else (None, w2)))))"

subsection \<open>Partition lists\<close>

text \<open>
  Go's \<^verbatim>\<open>int\<close> is a signed word of the platform's width (64 bits on the usual
  platforms), so the width is left open. The conversion \<^verbatim>\<open>int32(value)\<close> keeps the low
  32 bits.
\<close>

fun intToInt32Slice_loop :: "'a::len word list \<Rightarrow> 32 word list \<Rightarrow> 32 word list" where
  "intToInt32Slice_loop [] result = result"
| "intToInt32Slice_loop (v # vs) result = intToInt32Slice_loop vs (result @ [scast v])"

definition intToInt32Slice :: "'a::len word list \<Rightarrow> 32 word list" where
  "intToInt32Slice vs = intToInt32Slice_loop vs []"

subsection \<open>Cursors\<close>

definition fetchCursor :: "'b lift \<Rightarrow> Context \<Rightarrow> 'b world \<Rightarrow> error option \<times> 'b world" where
  "fetchCursor Connect c w =
     (case connectToEndpoint Connect (addressFlag c) of
        Inl err \<Rightarrow> (Some (Errorfw ''fetching cursor failed: '' err), w)
      | Inr client \<Rightarrow>
          (let streamName = streamFlag c;
               cursorID = cursorIDFlag c;
               part = partitionFlag c
           in case call_FetchCursor client cursorID streamName (scast part) w of
                (Inl err, w') \<Rightarrow>
                  (Some (Errorfw (''stream creation failed for stream '' @ streamName @ '': '') err), w')
              | (Inr offset, w') \<Rightarrow>
                  (None, Printf (''offset: '' @ FormatInt (sint offset) @ newline) w')))"

subsection \<open>Brokers to run the handlers against\<close>

text \<open>
  Modelled from the spec: the broker's create-stream operation, which is not part of this
  repository. The broker holds its streams as pairs of name and subject; creating a
  stream whose name it already holds is answered with the distinguished error
  "stream already exists", and any other stream is added.
\<close>

definition broker_CreateStream ::
  "string \<Rightarrow> string \<Rightarrow> (string \<times> string) list \<Rightarrow> error option \<times> (string \<times> string) list" where
  "broker_CreateStream subjectName streamName streams =
     (if streamName \<in> set (map fst streams) then (Some ErrStreamExists, streams)
      else (None, streams @ [(streamName, subjectName)]))"

text \<open>
  A client that answers every request with the given error, or with success for \<open>None\<close>
  (a fetched cursor is then 0), and whose subscription makes the given callback
  invocations. It leaves the broker state alone.
\<close>

definition answering :: "error option \<Rightarrow> delivery list \<Rightarrow> 'b Client" where
  "answering reply ds =
     \<lparr>CreateStream = (\<lambda>subjectName streamName b. (reply, b)),
      Publish = (\<lambda>streamName data opt b. (reply, b)),
      FetchCursor = (\<lambda>cursorID streamName part b.
                       (case reply of None \<Rightarrow> Inr 0 | Some err \<Rightarrow> Inl err, b)),
      Subscribe = (\<lambda>streamName opt b. case reply of None \<Rightarrow> Inr ds | Some err \<Rightarrow> Inl err)\<rparr>"

definition world0 :: "'b \<Rightarrow> 'b world" where
  "world0 b = \<lparr>broker = b, rpcs = [], stdout = []\<rparr>"

text \<open>The flag values of an invocation with \<^verbatim>\<open>--stream foo\<close> and every other flag at its default.\<close>

definition ctx0 :: Context where
  "ctx0 = \<lparr>addressFlag = ''127.0.0.1:9292'', streamFlag = ''foo'', subjectFlag = [],
           messageFlag = ''some-value'', createStreamFlag = False, ackPolicyFlag = ''leader'',
           cursorIDFlag = ''some-cursor'', partitionFlag = 0\<rparr>"

text \<open>
  A decoder to run the activity handler against: it rejects the payload \<^verbatim>\<open>garbage\<close> and
  decodes any other payload as the deletion of the stream that the payload names.
\<close>

definition decoding :: "string \<Rightarrow> error + ActivityStreamEvent" where
  "decoding payload =
     (if payload = ''garbage'' then Inl (LibError ''unexpected EOF'')
      else Inr \<lparr>Op = DELETE_STREAM, CreateStreamOp = None,
                DeleteStreamOp = Some \<lparr>DeleteStreamOp.Stream = payload\<rparr>,
                PauseStreamOp = None, ResumeStreamOp = None\<rparr>)"

text \<open>Whether a recorded request is a call of \<^verbatim>\<open>client.Publish\<close>.\<close>

fun isPublishRPC :: "rpc \<Rightarrow> bool" where
  "isPublishRPC (PublishRPC streamName data opt) = True"
| "isPublishRPC _ = False"

section \<open>Properties\<close>

subsection \<open>Creating a stream that exists\<close>

text \<open>
  C1. Whatever the client and the names, when the broker answers the create-stream request
  with "stream already exists", \<open>ensureStreamCreated\<close> returns no error; when it answers
  with any other error, \<open>ensureStreamCreated\<close> returns that error wrapped as a failure to
  create the named stream. Hence, against a broker that answers a request for a stream it
  holds with "stream already exists", a second call with the same names returns no error.
\<close>

theorem ensureStreamCreated_idempotent:
  fixes client :: "'b Client" and other :: "(string \<times> string) list Client"
  shows
  "(fst (CreateStream client (if subjectName = [] then streamName else subjectName) streamName (broker w))
      = Some ErrStreamExists
    \<longrightarrow> fst (ensureStreamCreated client streamName subjectName w) = None)
   \<and> (fst (CreateStream client (if subjectName = [] then streamName else subjectName) streamName (broker w))
        = Some err \<and> err \<noteq> ErrStreamExists
      \<longrightarrow> fst (ensureStreamCreated client streamName subjectName w)
          = Some (Errorfw (''stream creation failed for stream '' @ streamName @ '': '') err))
   \<and> fst (ensureStreamCreated (other\<lparr>CreateStream := broker_CreateStream\<rparr>) streamName subjectName
           (snd (ensureStreamCreated (other\<lparr>CreateStream := broker_CreateStream\<rparr>) streamName subjectName v)))
       = None"
  by (auto simp: ensureStreamCreated_def call_CreateStream_def broker_CreateStream_def Let_def
           split: prod.splits option.splits if_splits)

theorem ensureStreamCreated_idempotent_witness:
  "fst (ensureStreamCreated (answering (Some ErrStreamExists) []) ''foo'' [] (world0 ())) = None
   \<and> fst (ensureStreamCreated (answering (Some (LibError ''deadline exceeded'')) []) ''foo'' ''bar'' (world0 ()))
       = Some (Errorfw ''stream creation failed for stream foo: '' (LibError ''deadline exceeded''))"
  using ensureStreamCreated_idempotent
          [of "answering (Some ErrStreamExists) []" "[]" "''foo''" "world0 ()"]
        ensureStreamCreated_idempotent
          [of "answering (Some (LibError ''deadline exceeded'')) []" "''bar''" "''foo''" "world0 ()"
              "LibError ''deadline exceeded''"]
  by (simp add: answering_def world0_def)

text \<open>
  C2. Running \<open>create\<close> for the stream \<^verbatim>\<open>foo\<close> against a broker that does not hold it
  returns no error; running it again with the same flags returns the broker's
  "stream already exists", wrapped as a failure to create the stream: \<open>create\<close> does not
  make the exception that \<open>ensureStreamCreated\<close> makes.
\<close>

theorem create_existing_stream_fails:
  "fst (create (\<lambda>addrs. Inr ((answering None [])\<lparr>CreateStream := broker_CreateStream\<rparr>)) ctx0
         (world0 [])) = None
   \<and> fst (create (\<lambda>addrs. Inr ((answering None [])\<lparr>CreateStream := broker_CreateStream\<rparr>)) ctx0
           (snd (create (\<lambda>addrs. Inr ((answering None [])\<lparr>CreateStream := broker_CreateStream\<rparr>)) ctx0
                  (world0 []))))
       = Some (Errorfw ''stream creation failed for stream foo: '' ErrStreamExists)"
  by (simp add: create_def connectToEndpoint_def call_CreateStream_def broker_CreateStream_def
        answering_def world0_def ctx0_def Let_def)

subsection \<open>The subject of a created stream\<close>

lemma ensureStreamCreated_rpcs:
  "rpcs (snd (ensureStreamCreated client streamName subjectName w))
   = rpcs w @ [CreateStreamRPC (if subjectName = [] then streamName else subjectName) streamName]"
  by (simp add: ensureStreamCreated_def call_CreateStream_def Let_def
        split: prod.splits option.splits)

text \<open>
  C9. The create-stream request that \<open>ensureStreamCreated\<close> sends, and the one that
  \<open>create\<close> sends once connected, carries the stream name as its subject when the given
  subject is empty and the given subject otherwise; the broker is left in the state in
  which its create-stream operation, called with that subject, leaves it.
\<close>

theorem subject_defaults_to_stream:
  "rpcs (snd (ensureStreamCreated client streamName subjectName w))
     = rpcs w @ [CreateStreamRPC (if subjectName = [] then streamName else subjectName) streamName]
   \<and> broker (snd (ensureStreamCreated client streamName subjectName w))
     = snd (CreateStream client (if subjectName = [] then streamName else subjectName) streamName
             (broker w))
   \<and> (Connect [addressFlag c] = Inr client \<longrightarrow>
        rpcs (snd (create Connect c w))
          = rpcs w @ [CreateStreamRPC (if subjectFlag c = [] then streamFlag c else subjectFlag c)
                        (streamFlag c)]
        \<and> broker (snd (create Connect c w))
          = snd (CreateStream client (if subjectFlag c = [] then streamFlag c else subjectFlag c)
                  (streamFlag c) (broker w)))"
  by (simp add: ensureStreamCreated_def create_def connectToEndpoint_def call_CreateStream_def
        Let_def split: prod.splits option.splits)

theorem subject_defaults_to_stream_witness:
  "rpcs (snd (ensureStreamCreated (answering None []) ''foo'' [] (world0 ())))
     = [CreateStreamRPC ''foo'' ''foo'']
   \<and> rpcs (snd (ensureStreamCreated (answering None []) ''foo'' ''bar'' (world0 ())))
     = [CreateStreamRPC ''bar'' ''foo'']
   \<and> rpcs (snd (create (\<lambda>addrs. Inr (answering None [])) ctx0 (world0 ())))
     = [CreateStreamRPC ''foo'' ''foo'']
   \<and> rpcs (snd (create (\<lambda>addrs. Inr (answering None [])) (ctx0\<lparr>subjectFlag := ''bar''\<rparr>)
                 (world0 ())))
     = [CreateStreamRPC ''bar'' ''foo'']"
  using subject_defaults_to_stream
          [of "answering None []" "''foo''" "[]" "world0 ()" "\<lambda>addrs. Inr (answering None [])" ctx0]
        subject_defaults_to_stream
          [of "answering None []" "''foo''" "''bar''" "world0 ()" "\<lambda>addrs. Inr (answering None [])"
              "ctx0\<lparr>subjectFlag := ''bar''\<rparr>"]
  by (simp add: ctx0_def world0_def)

subsection \<open>Ack policies and publishing\<close>

lemma ackPolicy_valid_iff:
  "(\<exists>opt. ackPolicyStringToAckPolicy token = Inr opt) \<longleftrightarrow> token \<in> {''leader'', ''all'', ''none''}"
  by (simp add: ackPolicyStringToAckPolicy_def)

lemma ackPolicy_invalid:
  "token \<notin> {''leader'', ''all'', ''none''}
   \<Longrightarrow> ackPolicyStringToAckPolicy token = Inl (Errorf (''invalid ack policy: '' @ token))"
  by (simp add: ackPolicyStringToAckPolicy_def)

lemma publish_invalid_rpcs:
  assumes "ackPolicyStringToAckPolicy (ackPolicyFlag c) = Inl e"
  shows "filter isPublishRPC (rpcs (snd (publish Connect c w))) = filter isPublishRPC (rpcs w)"
proof (cases "connectToEndpoint Connect (addressFlag c)")
  case (Inl a)
  then show ?thesis by (simp add: publish_def)
next
  case (Inr client)
  show ?thesis
  proof (cases "createStreamFlag c")
    case True
    obtain r w1 where e: "ensureStreamCreated client (streamFlag c) (subjectFlag c) w = (r, w1)"
      by (cases "ensureStreamCreated client (streamFlag c) (subjectFlag c) w")
    have "rpcs w1 = rpcs w @ [CreateStreamRPC (if subjectFlag c = [] then streamFlag c
                                               else subjectFlag c) (streamFlag c)]"
      using ensureStreamCreated_rpcs [of client "streamFlag c" "subjectFlag c" w] e by simp
    then show ?thesis using Inr True e assms
      by (cases r) (simp_all add: publish_def Let_def)
  next
    case False
    then show ?thesis using Inr assms by (simp add: publish_def Let_def)
  qed
qed

lemma publish_invalid_result:
  assumes "ackPolicyStringToAckPolicy (ackPolicyFlag c) = Inl e"
    and "Connect [addressFlag c] = Inr client"
    and "createStreamFlag c \<longrightarrow>
         fst (ensureStreamCreated client (streamFlag c) (subjectFlag c) w) = None"
  shows "fst (publish Connect c w) = Some (Errorfw ''publication failed: '' e)"
proof (cases "createStreamFlag c")
  case True
  then obtain w1 where "ensureStreamCreated client (streamFlag c) (subjectFlag c) w = (None, w1)"
    using assms(3) by (cases "ensureStreamCreated client (streamFlag c) (subjectFlag c) w") auto
  then show ?thesis using assms True by (simp add: publish_def connectToEndpoint_def Let_def)
next
  case False
  then show ?thesis using assms by (simp add: publish_def connectToEndpoint_def Let_def)
qed

text \<open>
  C3. \<open>ackPolicyStringToAckPolicy\<close> returns an option exactly for the tokens \<^verbatim>\<open>leader\<close>,
  \<^verbatim>\<open>all\<close> and \<^verbatim>\<open>none\<close>; for any other token it returns the error "invalid ack policy"
  naming the token. With such a token \<open>publish\<close> sends no Publish request, whatever else
  happens, and once it has connected and the stream (if asked for) has been ensured it
  returns that error wrapped as a publication failure.
\<close>

theorem invalid_ack_policy_rejected:
  "((\<exists>opt. ackPolicyStringToAckPolicy token = Inr opt) \<longleftrightarrow> token \<in> {''leader'', ''all'', ''none''})
   \<and> (token \<notin> {''leader'', ''all'', ''none''}
        \<longrightarrow> ackPolicyStringToAckPolicy token = Inl (Errorf (''invalid ack policy: '' @ token)))
   \<and> (ackPolicyFlag c \<notin> {''leader'', ''all'', ''none''}
        \<longrightarrow> filter isPublishRPC (rpcs (snd (publish Connect c w))) = filter isPublishRPC (rpcs w)
          \<and> (\<forall>client. Connect [addressFlag c] = Inr client
                \<and> (createStreamFlag c \<longrightarrow>
                     fst (ensureStreamCreated client (streamFlag c) (subjectFlag c) w) = None)
              \<longrightarrow> fst (publish Connect c w)
                  = Some (Errorfw ''publication failed: ''
                           (Errorf (''invalid ack policy: '' @ ackPolicyFlag c)))))"
  using ackPolicy_valid_iff [of token] ackPolicy_invalid [of token]
    publish_invalid_rpcs [OF ackPolicy_invalid, of c Connect w]
    publish_invalid_result [OF ackPolicy_invalid, of c Connect _ w]
  by blast

theorem invalid_ack_policy_rejected_witness:
  "ackPolicyStringToAckPolicy ''Leader'' = Inl (Errorf ''invalid ack policy: Leader'')
   \<and> filter isPublishRPC
        (rpcs (snd (publish (\<lambda>addrs. Inr (answering None [])) (ctx0\<lparr>ackPolicyFlag := ''Leader''\<rparr>)
                     (world0 ())))) = []
   \<and> fst (publish (\<lambda>addrs. Inr (answering None [])) (ctx0\<lparr>ackPolicyFlag := ''Leader''\<rparr>) (world0 ()))
      = Some (Errorfw ''publication failed: '' (Errorf ''invalid ack policy: Leader''))"
  using invalid_ack_policy_rejected
          [of "''Leader''" "ctx0\<lparr>ackPolicyFlag := ''Leader''\<rparr>" "\<lambda>addrs. Inr (answering None [])"
              "world0 ()"]
  by (simp add: ctx0_def world0_def)

text \<open>
  Once \<open>publish\<close> has connected, the stream (if asked for) has been ensured and the ack
  policy resolved, an error that the Publish request returns and that is not the value
  \<^verbatim>\<open>lift.ErrStreamExists\<close> is returned wrapped as a publication failure.
\<close>

lemma publish_wraps_Publish_error:
  assumes "Connect [addressFlag c] = Inr client"
    and "(if createStreamFlag c then ensureStreamCreated client (streamFlag c) (subjectFlag c) w
          else (None, w)) = (None, w1)"
    and "ackPolicyStringToAckPolicy (ackPolicyFlag c) = Inr opt"
    and "fst (Publish client (streamFlag c) (messageFlag c) opt (broker w1)) = Some err"
    and "err \<noteq> ErrStreamExists"
  shows "fst (publish Connect c w) = Some (Errorfw ''publication failed: '' err)"
proof -
  obtain b where "Publish client (streamFlag c) (messageFlag c) opt (broker w1) = (Some err, b)"
    using assms(4) by (cases "Publish client (streamFlag c) (messageFlag c) opt (broker w1)") auto
  then have "fst (call_Publish client (streamFlag c) (messageFlag c) opt w1) = Some err"
    by (simp add: call_Publish_def)
  then show ?thesis
    using assms(1,2,3,5)
    by (cases "call_Publish client (streamFlag c) (messageFlag c) opt w1")
       (simp add: publish_def connectToEndpoint_def Let_def)
qed

lemma publish_wraps_Publish_error_example:
  "fst (publish (\<lambda>addrs. Inr (answering (Some (LibError ''deadline exceeded'')) [])) ctx0 (world0 ()))
     = Some (Errorfw ''publication failed: '' (LibError ''deadline exceeded''))"
proof -
  have "ackPolicyStringToAckPolicy (ackPolicyFlag ctx0) = Inr AckPolicyLeader"
    by (simp add: ackPolicyStringToAckPolicy_def ctx0_def)
  moreover have "(if createStreamFlag ctx0
          then ensureStreamCreated (answering (Some (LibError ''deadline exceeded'')) [])
                 (streamFlag ctx0) (subjectFlag ctx0) (world0 ())
          else (None, world0 ())) = (None, world0 ())"
    by (simp add: ctx0_def)
  moreover have "fst (Publish (answering (Some (LibError ''deadline exceeded'')) []) (streamFlag ctx0)
       (messageFlag ctx0) AckPolicyLeader (broker (world0 ()))) = Some (LibError ''deadline exceeded'')"
    by (simp add: answering_def)
  ultimately show ?thesis
    using publish_wraps_Publish_error
            [of "\<lambda>addrs. Inr (answering (Some (LibError ''deadline exceeded'')) [])" ctx0
                "answering (Some (LibError ''deadline exceeded'')) []" "world0 ()" "world0 ()"
                AckPolicyLeader "LibError ''deadline exceeded''"]
    by simp
qed


subsection \<open>Fetching a cursor\<close>

text \<open>
  C8. When the FetchCursor request fails, \<open>fetchCursor\<close> returns the error under the prefix
  of a failed stream creation, naming the stream; a failed connection it returns under
  the prefix "fetching cursor failed".
\<close>

theorem fetchCursor_failure_prefix:
  "fst (fetchCursor (\<lambda>addrs. Inr (answering (Some (LibError ''deadline exceeded'')) [])) ctx0
         (world0 ()))
     = Some (Errorfw ''stream creation failed for stream foo: '' (LibError ''deadline exceeded''))
   \<and> fst (fetchCursor (\<lambda>addrs. Inl (LibError ''connection refused'')) ctx0 (world0 ()))
     = Some (Errorfw ''fetching cursor failed: ''
              (Errorfw ''connection failed with address 127.0.0.1:9292: ''
                (LibError ''connection refused'')))"
  by (simp add: fetchCursor_def connectToEndpoint_def call_FetchCursor_def
        answering_def ctx0_def world0_def Let_def)

subsection \<open>Partition lists\<close>

lemma intToInt32Slice_loop_map: "intToInt32Slice_loop vs result = result @ map scast vs"
  by (induction vs arbitrary: result) auto

lemma intToInt32Slice_map: "intToInt32Slice vs = map scast vs"
  by (simp add: intToInt32Slice_def intToInt32Slice_loop_map)

lemma sint_int32:
  "sint (scast v :: 32 word) = sint (v :: 'a::len word)
   \<longleftrightarrow> - (2 ^ 31) \<le> sint v \<and> sint v < 2 ^ 31"
proof -
  have "(scast v :: 32 word) = word_of_int (sint v)"
    by (rule scast_eq)
  then have "sint (scast v :: 32 word) = signed_take_bit 31 (sint v)"
    by (simp only: sint_sbintrunc') simp
  then show ?thesis
    by (simp add: signed_take_bit_int_eq_self_iff)
qed

text \<open>
  C6, as the code has it. For a list of integers of any width, \<open>intToInt32Slice\<close> returns a
  list of the same length, the empty list for the empty list, and at each index the input
  element converted to 32 bits; that element has the value of the input element exactly
  when the input element lies between \<open>- 2\<^sup>3\<^sup>1\<close> and \<open>2\<^sup>3\<^sup>1 - 1\<close>.
\<close>

theorem intToInt32Slice_truncates:
  "length (intToInt32Slice vs) = length vs
   \<and> intToInt32Slice ([] :: 'a::len word list) = []
   \<and> (\<forall>i < length vs.
         intToInt32Slice vs ! i = scast (vs ! i)
         \<and> (sint (intToInt32Slice vs ! i) = sint (vs ! i)
              \<longleftrightarrow> - (2 ^ 31) \<le> sint (vs ! i) \<and> sint (vs ! i) < 2 ^ 31))"
  by (simp add: intToInt32Slice_map sint_int32)

theorem intToInt32Slice_truncates_witness:
  "(0::nat) < length [3, 4294967301 :: 64 word]
   \<and> length (intToInt32Slice [3, 4294967301 :: 64 word]) = length [3, 4294967301 :: 64 word]
   \<and> intToInt32Slice [3, 4294967301 :: 64 word] ! 0 = scast ([3, 4294967301 :: 64 word] ! 0)
   \<and> sint (intToInt32Slice [3, 4294967301 :: 64 word] ! 0) = sint ([3, 4294967301 :: 64 word] ! 0)"
proof -
  note t = intToInt32Slice_truncates [of "[3, 4294967301 :: 64 word]"]
  have pos: "(0::nat) < length [3, 4294967301 :: 64 word]"
    by simp
  have len: "length (intToInt32Slice [3, 4294967301 :: 64 word])
             = length [3, 4294967301 :: 64 word]"
    using t by (rule conjunct1)
  have all: "\<forall>i < length [3, 4294967301 :: 64 word].
         intToInt32Slice [3, 4294967301 :: 64 word] ! i = scast ([3, 4294967301 :: 64 word] ! i)
         \<and> (sint (intToInt32Slice [3, 4294967301 :: 64 word] ! i)
              = sint ([3, 4294967301 :: 64 word] ! i)
              \<longleftrightarrow> - (2 ^ 31) \<le> sint ([3, 4294967301 :: 64 word] ! i)
                  \<and> sint ([3, 4294967301 :: 64 word] ! i) < 2 ^ 31)"
    using t by (elim conjE)
  have zero: "intToInt32Slice [3, 4294967301 :: 64 word] ! 0 = scast ([3, 4294967301 :: 64 word] ! 0)
     \<and> sint (intToInt32Slice [3, 4294967301 :: 64 word] ! 0) = sint ([3, 4294967301 :: 64 word] ! 0)"
    using all [rule_format, OF pos] by simp
  show ?thesis using pos len zero by blast
qed

text \<open>
  C6, as the claim has it, fails on a 64-bit platform: the element \<open>2\<^sup>3\<^sup>1\<close> does not keep
  its value.
\<close>

theorem intToInt32Slice_value_counterexample:
  "sint (intToInt32Slice [2147483648 :: 64 word] ! 0) \<noteq> sint (2147483648 :: 64 word)"
  using sint_int32 [of "2147483648 :: 64 word"]
  by (simp add: intToInt32Slice_map)

subsection \<open>Subscription sessions\<close>

lemma callback_not_returned:
  "\<forall>d \<in> set ds. failure d = None \<Longrightarrow> fst (callback handler ds w) \<noteq> Returned r"
proof (induction handler ds w rule: callback.induct)
  case (3 handler m ds w)
  then show ?case by (cases "handler m w") simp_all
qed simp_all

lemma callback_not_nil: "fst (callback handler ds w) \<noteq> Returned None"
proof (induction handler ds w rule: callback.induct)
  case (3 handler m ds w)
  then show ?case by (cases "handler m w") simp_all
qed simp_all

lemma callback_append:
  "fst (callback handler pre w) = Blocked
   \<Longrightarrow> callback handler (pre @ ds) w = callback handler ds (snd (callback handler pre w))"
proof (induction handler pre w rule: callback.induct)
  case (3 handler m pre w)
  then show ?case by (cases "handler m w") simp_all
qed simp_all

lemma callback_first_error:
  "\<forall>d \<in> set pre. failure d = None
   \<Longrightarrow> fst (callback handler (pre @ Delivery m (Some err) # post) w) = Returned r \<Longrightarrow> r = Some err"
proof (induction handler pre w rule: callback.induct)
  case (3 handler m pre w)
  then show ?case by (cases "handler m w") simp_all
qed simp_all

lemma subscribeToStream_subscribed:
  assumes "Connect [endPointAddress] = Inr client"
    and "(if createStream then ensureStreamCreated client streamName subjectName w
          else (None, w)) = (None, w1)"
    and "Subscribe client streamName StartAtEarliestReceived (broker w1) = Inr ds"
  shows "subscribeToStream Connect streamName subjectName handler endPointAddress createStream w
         = callback handler ds (w1\<lparr>rpcs := rpcs w1 @ [SubscribeRPC streamName StartAtEarliestReceived]\<rparr>)"
  using assms by (simp add: subscribeToStream_def connectToEndpoint_def call_Subscribe_def)



text \<open>
  C10. Take a run of \<open>subscribeToStream\<close> that has connected, has ensured the stream if
  asked to, and whose Subscribe request has succeeded. While no callback invocation has
  carried an error the run has not returned. When the first invocation that carries an
  error arrives, the run can return nothing but that error, as it is; if the handler did
  not panic on the messages before it, the run does return it, and the world is the one
  the handler left after those messages, so the message that came with the error has not
  been handed to the handler. In no case does the run return \<^verbatim>\<open>nil\<close>.
\<close>

theorem subscribeToStream_returns_first_delivery_error:
  assumes "Connect [endPointAddress] = Inr client"
    and "(if createStream then ensureStreamCreated client streamName subjectName w
          else (None, w)) = (None, w1)"
    and "Subscribe client streamName StartAtEarliestReceived (broker w1) = Inr ds"
  shows
    "((\<forall>d \<in> set ds. failure d = None) \<longrightarrow>
        (\<forall>r. fst (subscribeToStream Connect streamName subjectName handler endPointAddress createStream w)
               \<noteq> Returned r))
     \<and> (\<forall>pre m err post.
          ds = pre @ Delivery m (Some err) # post \<and> (\<forall>d \<in> set pre. failure d = None) \<longrightarrow>
            (\<forall>r. fst (subscribeToStream Connect streamName subjectName handler endPointAddress createStream w)
                    = Returned r \<longrightarrow> r = Some err)
            \<and> (fst (callback handler pre
                       (w1\<lparr>rpcs := rpcs w1 @ [SubscribeRPC streamName StartAtEarliestReceived]\<rparr>)) = Blocked
                \<longrightarrow> subscribeToStream Connect streamName subjectName handler endPointAddress createStream w
                    = (Returned (Some err),
                       snd (callback handler pre
                             (w1\<lparr>rpcs := rpcs w1 @ [SubscribeRPC streamName StartAtEarliestReceived]\<rparr>)))))
     \<and> fst (subscribeToStream Connect streamName subjectName handler endPointAddress createStream w)
         \<noteq> Returned None"
proof -
  define w2 where "w2 = w1\<lparr>rpcs := rpcs w1 @ [SubscribeRPC streamName StartAtEarliestReceived]\<rparr>"
  have eq: "subscribeToStream Connect streamName subjectName handler endPointAddress createStream w
         = callback handler ds w2"
    unfolding w2_def using assms by (rule subscribeToStream_subscribed)
  have a: "(\<forall>d \<in> set ds. failure d = None) \<longrightarrow> (\<forall>r. fst (callback handler ds w2) \<noteq> Returned r)"
  proof (intro impI allI)
    fix r
    assume "\<forall>d \<in> set ds. failure d = None"
    then show "fst (callback handler ds w2) \<noteq> Returned r"
      by (rule callback_not_returned)
  qed
  have b: "\<forall>pre m err post.
          ds = pre @ Delivery m (Some err) # post \<and> (\<forall>d \<in> set pre. failure d = None) \<longrightarrow>
            (\<forall>r. fst (callback handler ds w2) = Returned r \<longrightarrow> r = Some err)
            \<and> (fst (callback handler pre w2) = Blocked
                \<longrightarrow> callback handler ds w2 = (Returned (Some err), snd (callback handler pre w2)))"
  proof (intro allI impI, elim conjE)
    fix pre m err post
    assume ds: "ds = pre @ Delivery m (Some err) # post" and pre: "\<forall>d \<in> set pre. failure d = None"
    have 1: "\<forall>r. fst (callback handler ds w2) = Returned r \<longrightarrow> r = Some err"
    proof (intro allI impI)
      fix r
      assume "fst (callback handler ds w2) = Returned r"
      then have "fst (callback handler (pre @ Delivery m (Some err) # post) w2) = Returned r"
        by (simp only: ds)
      with pre show "r = Some err"
        by (rule callback_first_error)
    qed
    have 2: "fst (callback handler pre w2) = Blocked
                \<longrightarrow> callback handler ds w2 = (Returned (Some err), snd (callback handler pre w2))"
    proof
      assume "fst (callback handler pre w2) = Blocked"
      then have "callback handler (pre @ Delivery m (Some err) # post) w2
                 = callback handler (Delivery m (Some err) # post) (snd (callback handler pre w2))"
        by (rule callback_append)
      also have "\<dots> = (Returned (Some err), snd (callback handler pre w2))"
        by (simp only: callback.simps)
      finally show "callback handler ds w2 = (Returned (Some err), snd (callback handler pre w2))"
        by (simp only: ds)
    qed
    from 1 2
    show "(\<forall>r. fst (callback handler ds w2) = Returned r \<longrightarrow> r = Some err)
            \<and> (fst (callback handler pre w2) = Blocked
                \<longrightarrow> callback handler ds w2 = (Returned (Some err), snd (callback handler pre w2)))"
      by (rule conjI)
  qed
  have c: "fst (callback handler ds w2) \<noteq> Returned None"
    by (rule callback_not_nil)
  have "((\<forall>d \<in> set ds. failure d = None) \<longrightarrow> (\<forall>r. fst (callback handler ds w2) \<noteq> Returned r))
     \<and> (\<forall>pre m err post.
          ds = pre @ Delivery m (Some err) # post \<and> (\<forall>d \<in> set pre. failure d = None) \<longrightarrow>
            (\<forall>r. fst (callback handler ds w2) = Returned r \<longrightarrow> r = Some err)
            \<and> (fst (callback handler pre w2) = Blocked
                \<longrightarrow> callback handler ds w2 = (Returned (Some err), snd (callback handler pre w2))))
     \<and> fst (callback handler ds w2) \<noteq> Returned None"
    using a b c by (intro conjI)
  then show ?thesis
    unfolding eq w2_def .
qed


theorem subscribeToStream_returns_first_delivery_error_witness:
  "subscribeToStream
     (\<lambda>addrs. Inr (answering None
        [Delivery \<lparr>Value = ''a'', Offset = 0\<rparr> None,
         Delivery \<lparr>Value = ''b'', Offset = 1\<rparr> (Some (LibError ''EOF'')),
         Delivery \<lparr>Value = ''c'', Offset = 2\<rparr> None]))
     ''foo'' [] (\<lambda>m w. Inr (Printf (Value m) w)) ''127.0.0.1:9292'' False (world0 ())
   = (Returned (Some (LibError ''EOF'')),
      \<lparr>broker = (), rpcs = [SubscribeRPC ''foo'' StartAtEarliestReceived], stdout = [''a'']\<rparr>)"
proof -
  define ds where "ds = [Delivery \<lparr>Value = ''a'', Offset = 0\<rparr> None,
         Delivery \<lparr>Value = ''b'', Offset = 1\<rparr> (Some (LibError ''EOF'')),
         Delivery \<lparr>Value = ''c'', Offset = 2\<rparr> None]"
  define h :: "Message \<Rightarrow> unit world \<Rightarrow> panic + unit world" where "h = (\<lambda>m w. Inr (Printf (Value m) w))"
  define w2 :: "unit world" where
    "w2 = (world0 ())\<lparr>rpcs := rpcs (world0 ()) @ [SubscribeRPC ''foo'' StartAtEarliestReceived]\<rparr>"
  have a: "(\<lambda>addrs. Inr (answering None ds)) [''127.0.0.1:9292''] = (Inr (answering None ds) :: error + unit Client)"
    by simp
  have b: "(if False then ensureStreamCreated (answering None ds) ''foo'' [] (world0 ())
            else (None, world0 ())) = (None, world0 ())"
    by simp
  have c: "Subscribe (answering None ds) ''foo'' StartAtEarliestReceived (broker (world0 ())) = Inr ds"
    by (simp add: answering_def)
  have d: "ds = [Delivery \<lparr>Value = ''a'', Offset = 0\<rparr> None]
                @ Delivery \<lparr>Value = ''b'', Offset = 1\<rparr> (Some (LibError ''EOF''))
                  # [Delivery \<lparr>Value = ''c'', Offset = 2\<rparr> None]
           \<and> (\<forall>d \<in> set [Delivery \<lparr>Value = ''a'', Offset = 0\<rparr> None]. failure d = None)"
    by (simp add: ds_def)
  have e: "callback h [Delivery \<lparr>Value = ''a'', Offset = 0\<rparr> None] w2
           = (Blocked, \<lparr>broker = (), rpcs = [SubscribeRPC ''foo'' StartAtEarliestReceived], stdout = [''a'']\<rparr>)"
    by (simp add: h_def w2_def world0_def Printf_def)
  note t = subscribeToStream_returns_first_delivery_error [where Connect = "\<lambda>addrs. Inr (answering None ds)" and client = "answering None ds"
                 and ds = ds and w = "world0 ()" and ?w1.0 = "world0 ()" and createStream = False
                 and handler = h and streamName = "''foo''"
                 and endPointAddress = "''127.0.0.1:9292''" and subjectName = "[]", OF a b c]
  from t have "\<forall>pre m err post.
          ds = pre @ Delivery m (Some err) # post \<and> (\<forall>d \<in> set pre. failure d = None) \<longrightarrow>
            (\<forall>r. fst (subscribeToStream (\<lambda>addrs. Inr (answering None ds)) ''foo'' [] h ''127.0.0.1:9292'' False (world0 ()))
                    = Returned r \<longrightarrow> r = Some err)
            \<and> (fst (callback h pre
                       ((world0 ())\<lparr>rpcs := rpcs (world0 ()) @ [SubscribeRPC ''foo'' StartAtEarliestReceived]\<rparr>)) = Blocked
                \<longrightarrow> subscribeToStream (\<lambda>addrs. Inr (answering None ds)) ''foo'' [] h ''127.0.0.1:9292'' False (world0 ())
                    = (Returned (Some err),
                       snd (callback h pre
                             ((world0 ())\<lparr>rpcs := rpcs (world0 ()) @ [SubscribeRPC ''foo'' StartAtEarliestReceived]\<rparr>))))"
    by (elim conjE)
  from this [rule_format, OF d]
  have "fst (callback h [Delivery \<lparr>Value = ''a'', Offset = 0\<rparr> None] w2) = Blocked
        \<longrightarrow> subscribeToStream (\<lambda>addrs. Inr (answering None ds)) ''foo'' [] h ''127.0.0.1:9292'' False (world0 ())
            = (Returned (Some (LibError ''EOF'')),
               snd (callback h [Delivery \<lparr>Value = ''a'', Offset = 0\<rparr> None] w2))"
    unfolding w2_def by (elim conjE)
  then have "subscribeToStream (\<lambda>addrs. Inr (answering None ds)) ''foo'' [] h ''127.0.0.1:9292'' False (world0 ())
            = (Returned (Some (LibError ''EOF'')),
               \<lparr>broker = (), rpcs = [SubscribeRPC ''foo'' StartAtEarliestReceived], stdout = [''a'']\<rparr>)"
    by (simp only: e fst_conv snd_conv simp_thms)
  then show ?thesis
    unfolding ds_def h_def .
qed

subsection \<open>The activity stream\<close>

text \<open>
  C4. In a session of \<open>subscribeActivityStream\<close> that is blocked after the invocations
  \<open>pre\<close>, a message whose payload does not decode makes the handler print the line
  "Received an invalid activity message" with the decoder's error, and the session goes
  on with the invocations that follow from the world so extended: after the message
  alone it is still blocked, with that line printed.
\<close>

theorem malformed_activity_message_not_fatal:
  assumes "Connect [addressFlag c] = Inr client"
    and "Subscribe client activityStreamName StartAtEarliestReceived (broker w)
         = Inr (pre @ Delivery m None # post)"
    and "Unmarshal (Value m) = Inl e"
    and "callback (subscribeActivityStream_handler Unmarshal) pre
           (w\<lparr>rpcs := rpcs w @ [SubscribeRPC activityStreamName StartAtEarliestReceived]\<rparr>) = (Blocked, w1)"
  shows "subscribeActivityStream Connect Unmarshal c w
         = callback (subscribeActivityStream_handler Unmarshal) post
             (Printf (''Received an invalid activity message from the activity stream: ''
                      @ Error e @ newline) w1)
       \<and> (post = [] \<longrightarrow>
            subscribeActivityStream Connect Unmarshal c w
            = (Blocked, Printf (''Received an invalid activity message from the activity stream: ''
                                @ Error e @ newline) w1))"
proof -
  define h where "h = (subscribeActivityStream_handler Unmarshal :: Message \<Rightarrow> 'a world \<Rightarrow> panic + 'a world)"
  define w2 where "w2 = w\<lparr>rpcs := rpcs w @ [SubscribeRPC activityStreamName StartAtEarliestReceived]\<rparr>"
  define line where "line = ''Received an invalid activity message from the activity stream: ''
                      @ Error e @ newline"
  have nocreate: "(if False then ensureStreamCreated client activityStreamName [] w else (None, w)) = (None, w)"
    by simp
  have pre: "fst (callback h pre w2) = Blocked" and w1: "snd (callback h pre w2) = w1"
    using assms(4) by (simp_all add: h_def w2_def)
  have step: "h m w1 = Inr (Printf line w1)"
    using assms(3) by (simp add: h_def line_def subscribeActivityStream_handler_def)
  have "subscribeActivityStream Connect Unmarshal c w
        = callback h (pre @ Delivery m None # post) w2"
    unfolding subscribeActivityStream_def h_def w2_def
    using assms(1) nocreate assms(2) by (rule subscribeToStream_subscribed)
  also have "\<dots> = callback h (Delivery m None # post) (snd (callback h pre w2))"
    using pre by (rule callback_append)
  also have "\<dots> = callback h post (Printf line w1)"
    by (simp add: w1 step)
  finally have eq: "subscribeActivityStream Connect Unmarshal c w = callback h post (Printf line w1)" .
  have "post = [] \<longrightarrow> subscribeActivityStream Connect Unmarshal c w = (Blocked, Printf line w1)"
    by (simp add: eq)
  with eq show ?thesis
    unfolding h_def line_def by (rule conjI)
qed

theorem malformed_activity_message_not_fatal_witness:
  "subscribeActivityStream
     (\<lambda>addrs. Inr (answering None
        [Delivery \<lparr>Value = ''garbage'', Offset = 0\<rparr> None,
         Delivery \<lparr>Value = ''foo'', Offset = 1\<rparr> None]))
     decoding ctx0 (world0 ())
   = (Blocked,
      \<lparr>broker = (), rpcs = [SubscribeRPC ''__activity'' StartAtEarliestReceived],
        stdout = [''Received an invalid activity message from the activity stream: unexpected EOF'' @ newline,
                  ''Received activity stream message: op: DELETE_STREAM, stream: foo, offset: 1'' @ newline]\<rparr>)"
proof -
  define ds where "ds = [Delivery \<lparr>Value = ''garbage'', Offset = 0\<rparr> None,
         Delivery \<lparr>Value = ''foo'', Offset = 1\<rparr> None]"
  define w2 :: "unit world" where
    "w2 = \<lparr>broker = (), rpcs = [SubscribeRPC ''__activity'' StartAtEarliestReceived], stdout = []\<rparr>"
  have a: "(\<lambda>addrs. Inr (answering None ds)) [addressFlag ctx0] = (Inr (answering None ds) :: error + unit Client)"
    by simp
  have b: "Subscribe (answering None ds) activityStreamName StartAtEarliestReceived (broker (world0 ()))
          = Inr ([] @ Delivery \<lparr>Value = ''garbage'', Offset = 0\<rparr> None # [Delivery \<lparr>Value = ''foo'', Offset = 1\<rparr> None])"
    by (simp add: answering_def ds_def)
  have c: "decoding (Value \<lparr>Value = ''garbage'', Offset = 0\<rparr>) = Inl (LibError ''unexpected EOF'')"
    by (simp add: decoding_def)
  have d: "callback (subscribeActivityStream_handler decoding) []
           ((world0 ())\<lparr>rpcs := rpcs (world0 ()) @ [SubscribeRPC activityStreamName StartAtEarliestReceived]\<rparr>)
         = (Blocked, w2)"
    by (simp add: world0_def activityStreamName_def w2_def)
  have fmt: "FormatInt 1 = ''1''"
    by (simp add: FormatInt_def FormatUint.simps [of "Suc 0"] digit_def)
  have dec: "decoding ''foo'' = Inr \<lparr>Op = DELETE_STREAM, CreateStreamOp = None,
                DeleteStreamOp = Some \<lparr>DeleteStreamOp.Stream = ''foo''\<rparr>,
                PauseStreamOp = None, ResumeStreamOp = None\<rparr>"
    by (simp add: decoding_def)
  have run: "callback (subscribeActivityStream_handler decoding) [Delivery \<lparr>Value = ''foo'', Offset = 1\<rparr> None]
          (Printf (''Received an invalid activity message from the activity stream: ''
                      @ Error (LibError ''unexpected EOF'') @ newline) w2)
      = (Blocked,
      \<lparr>broker = (), rpcs = [SubscribeRPC ''__activity'' StartAtEarliestReceived],
        stdout = [''Received an invalid activity message from the activity stream: unexpected EOF'' @ newline,
                  ''Received activity stream message: op: DELETE_STREAM, stream: foo, offset: 1'' @ newline]\<rparr>)"
    by (simp add: subscribeActivityStream_handler_def dec activityStr_def Printf_def fmt w2_def)
  note t = malformed_activity_message_not_fatal [where Connect = "\<lambda>addrs. Inr (answering None ds)" and client = "answering None ds"
                and c = ctx0 and w = "world0 ()" and Unmarshal = decoding and pre = "[]"
                and m = "\<lparr>Value = ''garbage'', Offset = 0\<rparr>"
                and post = "[Delivery \<lparr>Value = ''foo'', Offset = 1\<rparr> None]"
                and e = "LibError ''unexpected EOF''" and ?w1.0 = w2, OF a b c d, THEN conjunct1]
  show ?thesis
    using t unfolding run ds_def .
qed

subsection \<open>Rendering an activity event\<close>

lemma sublist_second: "sublist x (a @ x @ b)"
  by (rule sublist_appendI)

lemma sublist_fourth: "sublist x (a @ b @ c @ x)"
  using sublist_appendI [of x "a @ b @ c" "[]"] by simp

lemma sublist_fourth_of_six: "sublist x (a @ b @ c @ x @ d @ e)"
  using sublist_appendI [of x "a @ b @ c" "d @ e"] by simp

lemma sublist_sixth: "sublist x (a @ b @ c @ d @ e @ x)"
  using sublist_appendI [of x "a @ b @ c @ d @ e" "[]"] by simp

text \<open>
  For an event with one of the four named discriminants that holds the payload of that
  operation, \<open>activityStr\<close> is a string that contains the stream name of the operation, the
  formatted partition list (create, pause, resume) and the formatted resume-all flag
  (pause). For an event with any other discriminant it is "unknown activity".
\<close>

lemma activityStr_renders_fields:
  "(Op se = CREATE_STREAM \<and> CreateStreamOp se = Some cop \<longrightarrow>
      (\<exists>s. activityStr se = Inr s \<and> sublist (CreateStreamOp.Stream cop) s
           \<and> sublist (FormatInt32s (CreateStreamOp.Partitions cop)) s))
   \<and> (Op se = DELETE_STREAM \<and> DeleteStreamOp se = Some dop \<longrightarrow>
      (\<exists>s. activityStr se = Inr s \<and> sublist (DeleteStreamOp.Stream dop) s))
   \<and> (Op se = PAUSE_STREAM \<and> PauseStreamOp se = Some pop \<longrightarrow>
      (\<exists>s. activityStr se = Inr s \<and> sublist (PauseStreamOp.Stream pop) s
           \<and> sublist (FormatInt32s (PauseStreamOp.Partitions pop)) s
           \<and> sublist (FormatBool (PauseStreamOp.ResumeAll pop)) s))
   \<and> (Op se = RESUME_STREAM \<and> ResumeStreamOp se = Some rop \<longrightarrow>
      (\<exists>s. activityStr se = Inr s \<and> sublist (ResumeStreamOp.Stream rop) s
           \<and> sublist (FormatInt32s (ResumeStreamOp.Partitions rop)) s))
   \<and> (Op se \<notin> {CREATE_STREAM, DELETE_STREAM, PAUSE_STREAM, RESUME_STREAM} \<longrightarrow>
      activityStr se = Inr ''unknown activity'')"
proof (intro conjI impI)
  assume "Op se = CREATE_STREAM \<and> CreateStreamOp se = Some cop"
  then have "activityStr se = Inr (''stream: '' @ CreateStreamOp.Stream cop @ '', partitions: ''
                    @ FormatInt32s (CreateStreamOp.Partitions cop))"
    by (simp add: activityStr_def)
  then show "\<exists>s. activityStr se = Inr s \<and> sublist (CreateStreamOp.Stream cop) s
           \<and> sublist (FormatInt32s (CreateStreamOp.Partitions cop)) s"
    using sublist_second sublist_fourth by blast
next
  assume "Op se = DELETE_STREAM \<and> DeleteStreamOp se = Some dop"
  then have "activityStr se = Inr (''stream: '' @ DeleteStreamOp.Stream dop)"
    by (simp add: activityStr_def)
  then show "\<exists>s. activityStr se = Inr s \<and> sublist (DeleteStreamOp.Stream dop) s"
    using sublist_append_leftI by blast
next
  assume "Op se = PAUSE_STREAM \<and> PauseStreamOp se = Some pop"
  then have "activityStr se = Inr (''stream: '' @ PauseStreamOp.Stream pop @ '', partitions: ''
                    @ FormatInt32s (PauseStreamOp.Partitions pop) @ '', resumeAll: ''
                    @ FormatBool (PauseStreamOp.ResumeAll pop))"
    by (simp add: activityStr_def)
  then show "\<exists>s. activityStr se = Inr s \<and> sublist (PauseStreamOp.Stream pop) s
           \<and> sublist (FormatInt32s (PauseStreamOp.Partitions pop)) s
           \<and> sublist (FormatBool (PauseStreamOp.ResumeAll pop)) s"
    using sublist_second sublist_fourth_of_six sublist_sixth by blast
next
  assume "Op se = RESUME_STREAM \<and> ResumeStreamOp se = Some rop"
  then have "activityStr se = Inr (''stream: '' @ ResumeStreamOp.Stream rop @ '', partitions: ''
                    @ FormatInt32s (ResumeStreamOp.Partitions rop))"
    by (simp add: activityStr_def)
  then show "\<exists>s. activityStr se = Inr s \<and> sublist (ResumeStreamOp.Stream rop) s
           \<and> sublist (FormatInt32s (ResumeStreamOp.Partitions rop)) s"
    using sublist_second sublist_fourth by blast
next
  assume "Op se \<notin> {CREATE_STREAM, DELETE_STREAM, PAUSE_STREAM, RESUME_STREAM}"
  then show "activityStr se = Inr ''unknown activity''"
    by (cases "Op se") (simp_all add: activityStr_def)
qed

lemma activityStr_renders_fields_example:
  "activityStr \<lparr>Op = PAUSE_STREAM, CreateStreamOp = None, DeleteStreamOp = None,
                PauseStreamOp = Some \<lparr>PauseStreamOp.Stream = ''foo'', Partitions = [0, 2], ResumeAll = True\<rparr>,
                ResumeStreamOp = None\<rparr>
     = Inr ''stream: foo, partitions: [0 2], resumeAll: true''
   \<and> (\<exists>s. activityStr \<lparr>Op = PAUSE_STREAM, CreateStreamOp = None, DeleteStreamOp = None,
                PauseStreamOp = Some \<lparr>PauseStreamOp.Stream = ''foo'', Partitions = [0, 2], ResumeAll = True\<rparr>,
                ResumeStreamOp = None\<rparr> = Inr s
          \<and> sublist ''foo'' s \<and> sublist ''[0 2]'' s \<and> sublist ''true'' s)
   \<and> activityStr \<lparr>Op = OTHER_OP ''7'', CreateStreamOp = None, DeleteStreamOp = None,
                  PauseStreamOp = None, ResumeStreamOp = None\<rparr> = Inr ''unknown activity''"
proof -
  have f0: "FormatInt 0 = ''0''"
    by (simp add: FormatInt_def FormatUint.simps [of 0] digit_def)
  have f2: "FormatInt 2 = ''2''"
    by (simp add: FormatInt_def FormatUint.simps [of 2] digit_def)
  have ps: "FormatInt32s [0, 2] = ''[0 2]''"
    by (simp add: FormatInt32s_def f0 f2)
  have direct: "activityStr \<lparr>Op = PAUSE_STREAM, CreateStreamOp = None, DeleteStreamOp = None,
                PauseStreamOp = Some \<lparr>PauseStreamOp.Stream = ''foo'', Partitions = [0, 2], ResumeAll = True\<rparr>,
                ResumeStreamOp = None\<rparr>
     = Inr ''stream: foo, partitions: [0 2], resumeAll: true''"
    by (simp add: activityStr_def ps FormatBool_def)
  show ?thesis
    using direct
      activityStr_renders_fields [of "\<lparr>Op = PAUSE_STREAM, CreateStreamOp = None, DeleteStreamOp = None,
                PauseStreamOp = Some \<lparr>PauseStreamOp.Stream = ''foo'', Partitions = [0, 2], ResumeAll = True\<rparr>,
                ResumeStreamOp = None\<rparr>" _ _
               "\<lparr>PauseStreamOp.Stream = ''foo'', Partitions = [0, 2], ResumeAll = True\<rparr>"]
      activityStr_renders_fields [of "\<lparr>Op = OTHER_OP ''7'', CreateStreamOp = None, DeleteStreamOp = None,
                  PauseStreamOp = None, ResumeStreamOp = None\<rparr>"]
    by (simp add: ps FormatBool_def)
qed

text \<open>
  C5. For a decoded event with one of the four named discriminants and without the
  payload of that operation, \<open>activityStr\<close> reads a field through a \<^verbatim>\<open>nil\<close> pointer: no
  summary is rendered, where the claim has one rendered for every such event. The
  handler panics on the message, and the session ends there, without a return and
  without handling the message that follows.
\<close>

theorem activityStr_nil_payload_panics:
  "activityStr \<lparr>Op = CREATE_STREAM, CreateStreamOp = None, DeleteStreamOp = None,
                PauseStreamOp = None, ResumeStreamOp = None\<rparr> = Inl NilPointerDereference
   \<and> activityStr \<lparr>Op = DELETE_STREAM, CreateStreamOp = None, DeleteStreamOp = None,
                PauseStreamOp = None, ResumeStreamOp = None\<rparr> = Inl NilPointerDereference
   \<and> activityStr \<lparr>Op = PAUSE_STREAM, CreateStreamOp = None, DeleteStreamOp = None,
                PauseStreamOp = None, ResumeStreamOp = None\<rparr> = Inl NilPointerDereference
   \<and> activityStr \<lparr>Op = RESUME_STREAM, CreateStreamOp = None, DeleteStreamOp = None,
                PauseStreamOp = None, ResumeStreamOp = None\<rparr> = Inl NilPointerDereference
   \<and> subscribeActivityStream
        (\<lambda>addrs. Inr (answering None
           [Delivery \<lparr>Value = [], Offset = 0\<rparr> None,
            Delivery \<lparr>Value = ''foo'', Offset = 1\<rparr> None]))
        (\<lambda>payload.
           if payload = []
           then Inr \<lparr>Op = CREATE_STREAM, CreateStreamOp = None, DeleteStreamOp = None,
                     PauseStreamOp = None, ResumeStreamOp = None\<rparr>
           else decoding payload)
        ctx0 (world0 ())
      = (Panicked NilPointerDereference,
         \<lparr>broker = (), rpcs = [SubscribeRPC ''__activity'' StartAtEarliestReceived],
           stdout = []\<rparr>)"
  by (simp add: activityStr_def subscribeActivityStream_def subscribeToStream_def
        connectToEndpoint_def call_Subscribe_def subscribeActivityStream_handler_def
        activityStreamName_def answering_def ctx0_def world0_def)

end
